theory Spec2Isabelle
  imports Complex_Main "HOL-Library.AList"
begin

section \<open>Python strings\<close>

text \<open>
  A Python \<open>str\<close> is a sequence of Unicode code points. Floats are modelled as real
  numbers throughout: comparisons and the order of additions are the source's, rounding
  is not modelled.
\<close>

type_synonym codepoint = nat
type_synonym pystr = "codepoint list"

definition ascii :: "string \<Rightarrow> pystr" where
  "ascii s = map of_char s"

text \<open>
  \<open>str.isspace\<close> for one character; the regular expression class \<open>\s\<close> of a
  \<open>str\<close> pattern and \<open>str.strip()\<close> use the same table: U+0009..000D, U+001C..0020,
  U+0085, U+00A0, U+1680, U+2000..200A, U+2028, U+2029, U+202F, U+205F, U+3000.
\<close>

definition isspace :: "codepoint \<Rightarrow> bool" where
  "isspace c = ((9 \<le> c \<and> c \<le> 13) \<or> (28 \<le> c \<and> c \<le> 32) \<or> c = 133 \<or> c = 160
      \<or> c = 5760 \<or> (8192 \<le> c \<and> c \<le> 8202) \<or> c = 8232 \<or> c = 8233 \<or> c = 8239
      \<or> c = 8287 \<or> c = 12288)"

text \<open>\<open>text.strip()\<close>: leading and trailing whitespace removed.\<close>

definition py_strip :: "pystr \<Rightarrow> pystr" where
  "py_strip s = rev (dropWhile isspace (rev (dropWhile isspace s)))"

text \<open>\<open>re.sub(r'\s+', ' ', text)\<close>: every maximal run of whitespace becomes one U+0020.\<close>

function collapse_ws :: "pystr \<Rightarrow> pystr" where
  "collapse_ws [] = []"
| "collapse_ws (c # cs) =
     (if isspace c then 32 # collapse_ws (dropWhile isspace cs) else c # collapse_ws cs)"
  by pat_completeness auto
termination
  by (relation "measure length") (auto simp: le_imp_less_Suc length_dropWhile_le)

text \<open>\<open>s.split(d)\<close> with a one-character separator: one more piece than separators.\<close>

fun py_split :: "codepoint \<Rightarrow> pystr \<Rightarrow> pystr list" where
  "py_split d [] = [[]]"
| "py_split d (c # cs) =
     (if c = d then [] # py_split d cs
      else (case py_split d cs of p # ps \<Rightarrow> (c # p) # ps | [] \<Rightarrow> [[c]]))"

text \<open>The separator of the bundles, \<open>'|'\<close>.\<close>

definition pipe :: codepoint where
  "pipe = 124"

text \<open>Python's \<open>sum(xs)\<close>: a left fold that starts at 0.\<close>

definition py_sum :: "'a::monoid_add list \<Rightarrow> 'a" where
  "py_sum xs = foldl (+) 0 xs"

section \<open>Cells, errors and the external scorer\<close>

text \<open>
  What \<open>pandas.read_csv\<close> puts in a cell: NaN for a missing value, a \<open>str\<close>, or a
  number (an integer, or a float that is not NaN) when the whole column parses as
  numbers.
\<close>

datatype cell = Missing | Text pystr | IntCell int | FloatCell real

text \<open>
  The exceptions of the modelled code. \<open>ModelError\<close> stands for any \<open>Exception\<close>
  raised by the tokenizer, the model or the softmax.
\<close>

datatype py_error = AttributeError | KeyError | ModelError

text \<open>
  The tensor \<open>prob\<close> of the three-class model, in the source's order
  \<open>(prob[0], prob[1], prob[2])\<close> = (neutral, negative, positive).
\<close>

type_synonym probs = "real \<times> real \<times> real"

text \<open>
  The tokenizer, the model and the softmax are library code: one invocation takes the
  text and either raises or returns \<open>prob\<close>. The first argument is the number of
  invocations made before this one, so that a scorer with memory (a test double that
  fails on its second call) is a value of the type too; the analyzers thread that count.
\<close>

type_synonym external_scorer = "nat \<Rightarrow> pystr \<Rightarrow> py_error + probs"

text \<open>
  \<open>prob\<close> is never an arbitrary triple: it is \<open>torch.softmax(logits, dim=1)[0]\<close>
  (line 55), computed inside \<open>get_sentiment_score\<close> from the three logits of the model.
\<close>

type_synonym logits = "real \<times> real \<times> real"

definition softmax :: "logits \<Rightarrow> probs" where
  "softmax l =
     (case l of (a, b, c) \<Rightarrow>
        (exp a / (exp a + exp b + exp c),
         exp b / (exp a + exp b + exp c),
         exp c / (exp a + exp b + exp c)))"

definition sums_to_one :: "probs \<Rightarrow> bool" where
  "sums_to_one p = (case p of (neutral, negative, positive) \<Rightarrow> neutral + negative + positive = 1)"


section \<open>\<open>SentimentAnalyzer\<close> (sentiment_analyzer.py)\<close>

text \<open>\<open>clean_text\<close>, lines 29-39. \<open>pd.isna\<close> of a \<open>str\<close> is false.\<close>

definition clean_text :: "pystr \<Rightarrow> pystr" where
  "clean_text text = (if text = [] then [] else py_strip (collapse_ws text))"

record score_data =
  sentiment_score :: real
  positive_prob :: real
  negative_prob :: real
  neutral_prob :: real

definition zero_score :: score_data where
  "zero_score = \<lparr>sentiment_score = 0, positive_prob = 0, negative_prob = 0, neutral_prob = 0\<rparr>"

text \<open>
  \<open>get_sentiment_score\<close>, lines 41-78. The result is paired with the number of scorer
  invocations made so far.
\<close>

definition get_sentiment_score :: "external_scorer \<Rightarrow> pystr \<Rightarrow> nat \<Rightarrow> score_data \<times> nat" where
  "get_sentiment_score model text calls =
     (if text = [] \<or> py_strip text = [] then (zero_score, calls)
      else (case model calls text of
              Inl e \<Rightarrow> (zero_score, Suc calls)
            | Inr (neutral, negative, positive) \<Rightarrow>
                (\<lparr>sentiment_score = positive - negative, positive_prob = positive,
                  negative_prob = negative, neutral_prob = neutral\<rparr>, Suc calls)))"

record bundle_result =
  avg_sentiment_score :: real
  positive_count :: int
  negative_count :: int
  neutral_count :: int
  total_titles :: int

record scored_result = bundle_result +
  individual_scores :: "real list"

definition zero_result :: bundle_result where
  "zero_result = \<lparr>avg_sentiment_score = 0, positive_count = 0, negative_count = 0,
     neutral_count = 0, total_titles = 0\<rparr>"

definition zero_scored :: scored_result where
  "zero_scored = \<lparr>avg_sentiment_score = 0, positive_count = 0, negative_count = 0,
     neutral_count = 0, total_titles = 0, individual_scores = []\<rparr>"

text \<open>Lines 93-94: the pieces of the bundle, cleaned, the empty ones dropped.\<close>

definition split_titles :: "pystr \<Rightarrow> pystr list" where
  "split_titles news_titles =
     filter (\<lambda>title. title \<noteq> []) (map clean_text (py_split pipe news_titles))"

text \<open>Lines 107-110: the loop that scores every title in order.\<close>

fun score_titles :: "external_scorer \<Rightarrow> pystr list \<Rightarrow> nat \<Rightarrow> real list \<times> nat" where
  "score_titles model [] calls = ([], calls)"
| "score_titles model (title # titles) calls =
     (case get_sentiment_score model title calls of
        (score_data, calls') \<Rightarrow>
          (case score_titles model titles calls' of
             (scores, calls'') \<Rightarrow> (sentiment_score score_data # scores, calls'')))"

text \<open>Lines 113-125: the statistics of a non-empty list of titles.\<close>

definition bundle_statistics :: "pystr list \<Rightarrow> real list \<Rightarrow> scored_result" where
  "bundle_statistics titles scores =
     (let avg = py_sum scores / real (length scores);
          pos = py_sum (map (\<lambda>score. 1) (filter (\<lambda>score. score > 0.1) scores));
          neg = py_sum (map (\<lambda>score. 1) (filter (\<lambda>score. score < - 0.1) scores));
          neu = int (length scores) - pos - neg
      in \<lparr>avg_sentiment_score = avg, positive_count = pos, negative_count = neg,
           neutral_count = neu, total_titles = int (length titles),
           individual_scores = scores\<rparr>)"

text \<open>
  \<open>analyze_news_titles\<close>, lines 80-125. A number is neither NaN nor equal to \<open>""\<close>
  and has no \<open>split\<close>: line 93 raises AttributeError.
\<close>

fun analyze_news_titles :: "external_scorer \<Rightarrow> cell \<Rightarrow> nat \<Rightarrow> (py_error + scored_result) \<times> nat" where
  "analyze_news_titles model Missing calls = (Inr zero_scored, calls)"
| "analyze_news_titles model (IntCell n) calls = (Inl AttributeError, calls)"
| "analyze_news_titles model (FloatCell x) calls = (Inl AttributeError, calls)"
| "analyze_news_titles model (Text news_titles) calls =
     (if news_titles = [] then (Inr zero_scored, calls)
      else let titles = split_titles news_titles in
        if titles = [] then (Inr zero_scored, calls)
        else (case score_titles model titles calls of
                (scores, calls') \<Rightarrow> (Inr (bundle_statistics titles scores), calls')))"

text \<open>
  A row of the data frame: its columns in order, each with its cell. \<open>row[name]\<close>
  raises KeyError when the column is absent; \<open>row.get(name, default)\<close> does not.
\<close>

type_synonym row = "(string \<times> cell) list"

definition row_get :: "row \<Rightarrow> string \<Rightarrow> cell \<Rightarrow> cell" where
  "row_get r name fallback = (case map_of r name of None \<Rightarrow> fallback | Some c \<Rightarrow> c)"

text \<open>Lines 153-159: the five fields kept of a result.\<close>

definition sentiment_entry :: "scored_result \<Rightarrow> bundle_result" where
  "sentiment_entry result =
     \<lparr>avg_sentiment_score = avg_sentiment_score result,
      positive_count = positive_count result,
      negative_count = negative_count result,
      neutral_count = neutral_count result,
      total_titles = total_titles result\<rparr>"

text \<open>
  Lines 147-163: the loop over the rows. Nothing in it catches an exception: the
  progress line reads \<open>row['date']\<close>, and \<open>analyze_news_titles\<close> may raise.
\<close>

fun analyze_rows :: "external_scorer \<Rightarrow> row list \<Rightarrow> nat \<Rightarrow> (py_error + bundle_result list) \<times> nat" where
  "analyze_rows model [] calls = (Inr [], calls)"
| "analyze_rows model (r # rows) calls =
     (case map_of r ''date'' of
        None \<Rightarrow> (Inl KeyError, calls)
      | Some d \<Rightarrow>
          (case analyze_news_titles model (row_get r ''news_titles'' (Text [])) calls of
             (Inl e, calls') \<Rightarrow> (Inl e, calls')
           | (Inr result, calls') \<Rightarrow>
               (case analyze_rows model rows calls' of
                  (Inl e, calls'') \<Rightarrow> (Inl e, calls'')
                | (Inr results, calls'') \<Rightarrow> (Inr (sentiment_entry result # results), calls''))))"

text \<open>The columns of \<open>sentiment_df\<close>, in the order of the dictionary of lines 153-159.\<close>

definition sentiment_columns :: "bundle_result \<Rightarrow> row" where
  "sentiment_columns result =
     [(''avg_sentiment_score'', FloatCell (avg_sentiment_score result)),
      (''positive_count'', IntCell (positive_count result)),
      (''negative_count'', IntCell (negative_count result)),
      (''neutral_count'', IntCell (neutral_count result)),
      (''total_titles'', IntCell (total_titles result))]"

text \<open>
  \<open>process_csv_with_sentiment\<close>, lines 127-172, from the rows read to the rows
  written: \<open>pd.concat([df, sentiment_df], axis=1)\<close> puts the new columns after the old
  ones, row by row. The dataset is taken as read. An exception of the loop leaves the
  function before anything is written. The console summary that follows the write (lines
  174-193) is not modelled: it changes nothing of what was written, and may itself raise
  (it subscripts \<open>row['news_titles']\<close> of the first five rows, which is a float where
  the bundle is missing).
\<close>

definition process_csv_with_sentiment :: "external_scorer \<Rightarrow> row list \<Rightarrow> py_error + row list" where
  "process_csv_with_sentiment model rows =
     (case fst (analyze_rows model rows 0) of
        Inl e \<Rightarrow> Inl e
      | Inr results \<Rightarrow> Inr (map (\<lambda>(r, result). r @ sentiment_columns result) (zip rows results)))"

section \<open>\<open>CorrectSentimentAnalyzer\<close> (sentiment_analyzer_correct.py)\<close>

text \<open>
  The class \<open>\w\<close> of a \<open>str\<close> pattern: alphanumeric or underscore. Python's table of
  alphanumeric code points beyond ASCII is a parameter.
\<close>

definition is_word :: "(codepoint \<Rightarrow> bool) \<Rightarrow> codepoint \<Rightarrow> bool" where
  "is_word unicode_alnum c =
     (if c < 128 then (48 \<le> c \<and> c \<le> 57) \<or> (65 \<le> c \<and> c \<le> 90) \<or> c = 95 \<or> (97 \<le> c \<and> c \<le> 122)
      else unicode_alnum c)"

text \<open>
  The characters kept by line 37: \<open>\w\<close>, \<open>\s\<close>, U+3040..309F, U+30A0..30FF,
  U+4E00..9FAF and U+3000..303F.
\<close>

definition allowed :: "(codepoint \<Rightarrow> bool) \<Rightarrow> codepoint \<Rightarrow> bool" where
  "allowed unicode_alnum c =
     (is_word unicode_alnum c \<or> isspace c \<or> (12352 \<le> c \<and> c \<le> 12447) \<or> (12448 \<le> c \<and> c \<le> 12543)
      \<or> (19968 \<le> c \<and> c \<le> 40879) \<or> (12288 \<le> c \<and> c \<le> 12351))"

text \<open>\<open>clean_text\<close>, lines 29-38: strip, collapse whitespace, delete, strip.\<close>

definition correct_clean_text :: "(codepoint \<Rightarrow> bool) \<Rightarrow> pystr \<Rightarrow> pystr" where
  "correct_clean_text unicode_alnum text =
     (if text = [] then []
      else py_strip (filter (allowed unicode_alnum) (collapse_ws (py_strip text))))"

text \<open>\<open>get_sentiment_score\<close>, lines 40-62: the score alone.\<close>

definition correct_get_sentiment_score :: "external_scorer \<Rightarrow> pystr \<Rightarrow> nat \<Rightarrow> real \<times> nat" where
  "correct_get_sentiment_score model text calls =
     (if text = [] \<or> py_strip text = [] then (0, calls)
      else (case model calls text of
              Inl e \<Rightarrow> (0, Suc calls)
            | Inr (neutral, negative, positive) \<Rightarrow> (positive - negative, Suc calls)))"

text \<open>Line 76: the pieces whose strip is not empty, stripped.\<close>

definition correct_split_titles :: "pystr \<Rightarrow> pystr list" where
  "correct_split_titles news_titles =
     map py_strip (filter (\<lambda>title. py_strip title \<noteq> []) (py_split pipe news_titles))"

text \<open>Lines 92-95: the scoring loop.\<close>

fun correct_score_titles :: "external_scorer \<Rightarrow> pystr list \<Rightarrow> nat \<Rightarrow> real list \<times> nat" where
  "correct_score_titles model [] calls = ([], calls)"
| "correct_score_titles model (title # titles) calls =
     (case correct_get_sentiment_score model title calls of
        (score, calls') \<Rightarrow>
          (case correct_score_titles model titles calls' of
             (scores, calls'') \<Rightarrow> (score # scores, calls'')))"

text \<open>
  \<open>analyze_news_titles\<close>, lines 64-129. A number is not NaN and has no \<open>strip\<close>:
  line 66 raises AttributeError.
\<close>

fun correct_analyze_news_titles :: "external_scorer \<Rightarrow> cell \<Rightarrow> nat \<Rightarrow> (py_error + bundle_result) \<times> nat" where
  "correct_analyze_news_titles model Missing calls = (Inr zero_result, calls)"
| "correct_analyze_news_titles model (IntCell n) calls = (Inl AttributeError, calls)"
| "correct_analyze_news_titles model (FloatCell x) calls = (Inl AttributeError, calls)"
| "correct_analyze_news_titles model (Text news_titles) calls =
     (if py_strip news_titles = [] then (Inr zero_result, calls)
      else let titles = correct_split_titles news_titles in
        if titles = [] then (Inr zero_result, calls)
        else (case correct_score_titles model titles calls of
                (scores, calls') \<Rightarrow>
                  (if scores \<noteq> [] then
                     (let average_score = py_sum scores / real (length scores);
                          pos = py_sum (map (\<lambda>s. 1) (filter (\<lambda>s. s > 0.1) scores));
                          neg = py_sum (map (\<lambda>s. 1) (filter (\<lambda>s. s < - 0.1) scores));
                          neu = int (length scores) - pos - neg
                      in (Inr \<lparr>avg_sentiment_score = average_score, positive_count = pos,
                               negative_count = neg, neutral_count = neu,
                               total_titles = int (length titles)\<rparr>, calls'))
                   else (Inr zero_result, calls'))))"

text \<open>
  Lines 186-199: the loop over the rows, which writes the five cells of each row into
  the frame. Nothing in it catches an exception.
\<close>

definition set_sentiment_cells :: "bundle_result \<Rightarrow> row \<Rightarrow> row" where
  "set_sentiment_cells result r =
     AList.update ''total_titles'' (IntCell (total_titles result))
       (AList.update ''neutral_count'' (IntCell (neutral_count result))
         (AList.update ''negative_count'' (IntCell (negative_count result))
           (AList.update ''positive_count'' (IntCell (positive_count result))
             (AList.update ''avg_sentiment_score'' (FloatCell (avg_sentiment_score result)) r))))"

fun correct_process_rows :: "external_scorer \<Rightarrow> row list \<Rightarrow> nat \<Rightarrow> (py_error + row list) \<times> nat" where
  "correct_process_rows model [] calls = (Inr [], calls)"
| "correct_process_rows model (r # rows) calls =
     (case map_of r ''news_titles'' of
        None \<Rightarrow> (Inl KeyError, calls)
      | Some news_titles \<Rightarrow>
          (case correct_analyze_news_titles model news_titles calls of
             (Inl e, calls') \<Rightarrow> (Inl e, calls')
           | (Inr result, calls') \<Rightarrow>
               (case correct_process_rows model rows calls' of
                  (Inl e, calls'') \<Rightarrow> (Inl e, calls'')
                | (Inr out, calls'') \<Rightarrow> (Inr (set_sentiment_cells result r # out), calls''))))"

text \<open>
  \<open>process_csv\<close>, lines 164-202, from the rows read to the frame written;
  \<open>test_mode\<close> keeps the first five rows. The statistics printed after the write are
  not modelled.
\<close>

definition correct_process_csv :: "external_scorer \<Rightarrow> row list \<Rightarrow> bool \<Rightarrow> py_error + row list" where
  "correct_process_csv model rows test_mode =
     fst (correct_process_rows model (if test_mode then take 5 rows else rows) 0)"

section \<open>\<open>FixedSentimentAnalyzer\<close> (sentiment_analyzer_fixed.py)\<close>

text \<open>The five-class model: \<open>predictions[0]\<close>, one to five stars.\<close>

type_synonym stars = "real \<times> real \<times> real \<times> real \<times> real"
type_synonym star_scorer = "nat \<Rightarrow> pystr \<Rightarrow> py_error + stars"

text \<open>
  The characters kept by line 32: \<open>\w\<close>, \<open>\s\<close>, U+3040..309F, U+30A0..30FF and
  U+4E00..9FAF.
\<close>

definition fixed_allowed :: "(codepoint \<Rightarrow> bool) \<Rightarrow> codepoint \<Rightarrow> bool" where
  "fixed_allowed unicode_alnum c =
     (is_word unicode_alnum c \<or> isspace c \<or> (12352 \<le> c \<and> c \<le> 12447) \<or> (12448 \<le> c \<and> c \<le> 12543)
      \<or> (19968 \<le> c \<and> c \<le> 40879))"

text \<open>
  \<open>clean_text\<close>, lines 25-35: strip, replace every other character by a space,
  collapse whitespace, strip.
\<close>

definition fixed_clean_text :: "(codepoint \<Rightarrow> bool) \<Rightarrow> pystr \<Rightarrow> pystr" where
  "fixed_clean_text unicode_alnum text =
     (if text = [] then []
      else py_strip (collapse_ws
             (map (\<lambda>c. if fixed_allowed unicode_alnum c then c else 32) (py_strip text))))"

text \<open>\<open>analyze_sentiment\<close>, lines 37-72.\<close>

definition analyze_sentiment :: "star_scorer \<Rightarrow> pystr \<Rightarrow> nat \<Rightarrow> real \<times> nat" where
  "analyze_sentiment model text calls =
     (if text = [] \<or> py_strip text = [] then (0, calls)
      else (case model calls text of
              Inl e \<Rightarrow> (0, Suc calls)
            | Inr (s0, s1, s2, s3, s4) \<Rightarrow>
                (s0 * - 1.0 + s1 * - 0.5 + s2 * 0.0 + s3 * 0.5 + s4 * 1.0, Suc calls)))"

text \<open>
  Lines 97-112: the loop, with its four accumulators (the scores and the three
  counters) passed along.
\<close>

fun fixed_score_loop ::
  "star_scorer \<Rightarrow> pystr list \<Rightarrow> real list \<times> int \<times> int \<times> int \<Rightarrow> nat \<Rightarrow> (real list \<times> int \<times> int \<times> int) \<times> nat" where
  "fixed_score_loop model [] acc calls = (acc, calls)"
| "fixed_score_loop model (title # titles) (sentiment_scores, pos, neg, neu) calls =
     (case analyze_sentiment model title calls of
        (score, calls') \<Rightarrow>
          fixed_score_loop model titles
            (if score > 0.1 then (sentiment_scores @ [score], pos + 1, neg, neu)
             else if score < - 0.1 then (sentiment_scores @ [score], pos, neg + 1, neu)
             else (sentiment_scores @ [score], pos, neg, neu + 1))
            calls')"

text \<open>\<open>analyze_news_titles\<close>, lines 74-123.\<close>

fun fixed_analyze_news_titles :: "star_scorer \<Rightarrow> cell \<Rightarrow> nat \<Rightarrow> (py_error + bundle_result) \<times> nat" where
  "fixed_analyze_news_titles model Missing calls = (Inr zero_result, calls)"
| "fixed_analyze_news_titles model (IntCell n) calls = (Inl AttributeError, calls)"
| "fixed_analyze_news_titles model (FloatCell x) calls = (Inl AttributeError, calls)"
| "fixed_analyze_news_titles model (Text news_titles) calls =
     (if py_strip news_titles = [] then (Inr zero_result, calls)
      else let titles = correct_split_titles news_titles in
        if titles = [] then (Inr zero_result, calls)
        else (case fixed_score_loop model titles ([], 0, 0, 0) calls of
                ((sentiment_scores, pos, neg, neu), calls') \<Rightarrow>
                  (Inr \<lparr>avg_sentiment_score =
                          (if sentiment_scores \<noteq> [] then
                             py_sum sentiment_scores / real (length sentiment_scores)
                           else 0.0),
                        positive_count = pos, negative_count = neg, neutral_count = neu,
                        total_titles = int (length titles)\<rparr>, calls')))"

section \<open>BERT/BERT_main.py\<close>

text \<open>
  \<open>get_sentiment_score\<close>, lines 47-56: no guard and no handler; an exception of the
  model is the caller's.
\<close>

definition bert_get_sentiment_score :: "external_scorer \<Rightarrow> pystr \<Rightarrow> nat \<Rightarrow> py_error + real" where
  "bert_get_sentiment_score model text calls =
     (case model calls text of
        Inl e \<Rightarrow> Inl e
      | Inr (neutral, negative, positive) \<Rightarrow> Inr (positive - negative))"

section \<open>The classification of the specification\<close>

text \<open>
  The specification's rule, in its words: Positive if signedScore > 0.1, Negative if
  signedScore < -0.1, else Neutral. The analyzers have no such function; they count.
\<close>

datatype classification = Positive | Negative | Neutral

definition spec_classify :: "real \<Rightarrow> classification" where
  "spec_classify signedScore =
     (if signedScore > 0.1 then Positive else if signedScore < - 0.1 then Negative else Neutral)"

section \<open>Test doubles and example inputs\<close>

text \<open>A scorer that answers its k-th invocation with the k-th entry of a table.\<close>

definition table_scorer :: "probs list \<Rightarrow> external_scorer" where
  "table_scorer table calls text =
     (if calls < length table then Inr (table ! calls) else Inl ModelError)"

definition table_star_scorer :: "stars list \<Rightarrow> star_scorer" where
  "table_star_scorer table calls text =
     (if calls < length table then Inr (table ! calls) else Inl ModelError)"


text \<open>
  The end-to-end scenario of the specification, with ASCII items: the three
  distributions, as (neutral, negative, positive).
\<close>

definition example_bundle :: pystr where
  "example_bundle = ascii ''good|bad|so so''"

definition example_table :: "probs list" where
  "example_table = [(0.1, 0.1, 0.8), (0.1, 0.8, 0.1), (0.33, 0.34, 0.33)]"

definition example_stars :: "stars list" where
  "example_stars = [(0, 0, 0, 0, 1), (1, 0, 0, 0, 0), (0, 0, 1, 0, 0)]"

text \<open>A bundle of three pieces, all blank: the empty piece, one space, two spaces.\<close>

definition blank_bundle :: pystr where
  "blank_bundle = ascii ''| |  ''"

section \<open>Rows that raise\<close>

text \<open>
  The rows whose processing in \<open>process_csv_with_sentiment\<close> raises nothing: a
  \<open>date\<close> column, and a bundle cell that is absent, missing or a string.
\<close>

definition row_ok :: "row \<Rightarrow> bool" where
  "row_ok r = (map_of r ''date'' \<noteq> None \<and>
     (case row_get r ''news_titles'' (Text []) of
        IntCell n \<Rightarrow> False | FloatCell x \<Rightarrow> False | Missing \<Rightarrow> True | Text s \<Rightarrow> True))"

text \<open>The same for \<open>CorrectSentimentAnalyzer.process_csv\<close>, which reads \<open>row['news_titles']\<close>.\<close>

definition correct_row_ok :: "row \<Rightarrow> bool" where
  "correct_row_ok r =
     (case map_of r ''news_titles'' of
        None \<Rightarrow> False | Some (IntCell n) \<Rightarrow> False | Some (FloatCell x) \<Rightarrow> False
      | Some Missing \<Rightarrow> True | Some (Text s) \<Rightarrow> True)"

text \<open>
  Example rows of a dataset whose bundle column holds only numbers and missing values,
  which \<open>pandas\<close> reads as a column of floats: a number between two missing cells.
\<close>

definition first_row :: row where
  "first_row = [(''date'', Text (ascii ''2024-01-03'')), (''news_titles'', Missing)]"

definition numeric_row :: row where
  "numeric_row = [(''date'', Text (ascii ''2024-01-04'')), (''news_titles'', FloatCell 1984)]"

definition last_row :: row where
  "last_row = [(''date'', Text (ascii ''2024-01-05'')), (''news_titles'', Missing)]"

definition numeric_rows :: "row list" where
  "numeric_rows = [first_row, numeric_row, last_row]"

text \<open>A dataset of one row that has the bundle column and no \<open>date\<close> column.\<close>

definition undated_rows :: "row list" where
  "undated_rows = [[(''news_titles'', Text (ascii ''good''))]]"

text \<open>Two rows with a column of their own; the first has no bundle.\<close>

definition example_rows :: "row list" where
  "example_rows =
     [[(''date'', Text (ascii ''2024-01-04'')), (''jump'', FloatCell 1.5), (''news_titles'', Missing)],
      [(''date'', Text (ascii ''2024-01-05'')), (''jump'', FloatCell 0.5),
       (''news_titles'', Text example_bundle)]]"

section \<open>Strings with normal whitespace\<close>

text \<open>
  A string in which every whitespace character is a single U+0020 that no other
  whitespace character follows: what \<open>collapse_ws\<close> produces and leaves unchanged.
\<close>

fun ws_normal :: "pystr \<Rightarrow> bool" where
  "ws_normal [] = True"
| "ws_normal (c # cs) =
     ((isspace c \<longrightarrow> c = 32 \<and> (cs = [] \<or> \<not> isspace (hd cs))) \<and> ws_normal cs)"

text \<open>
  A table with no alphanumeric code point beyond ASCII, for the examples, which are
  ASCII.
\<close>

definition ascii_alnum_only :: "codepoint \<Rightarrow> bool" where
  "ascii_alnum_only c = False"

section \<open>Auxiliary facts\<close>

lemma foldl_add_sum_list: "foldl (+) a xs = a + sum_list (xs :: 'a::monoid_add list)"
  by (induction xs arbitrary: a) (simp_all add: add.assoc)

lemma py_sum_sum_list: "py_sum xs = sum_list xs"
  by (simp add: py_sum_def foldl_add_sum_list)

lemma score_titles_length:
  "score_titles model titles calls = (scores, calls') \<Longrightarrow> length scores = length titles"
  by (induction titles arbitrary: calls scores calls') (auto split: prod.splits)

lemma length_score_titles: "length (fst (score_titles model titles calls)) = length titles"
  by (cases "score_titles model titles calls") (simp add: score_titles_length)

lemma filter_disjoint_length:
  "length (filter (\<lambda>s. s > (0.1::real)) xs) + length (filter (\<lambda>s. s < - 0.1) xs) \<le> length xs"
  by (induction xs) auto

lemma three_way_length:
  "length (filter (\<lambda>s. s > (0.1::real)) xs) + length (filter (\<lambda>s. s < - 0.1) xs)
     + length (filter (\<lambda>s. \<not> s > 0.1 \<and> \<not> s < - 0.1) xs) = length xs"
  by (induction xs) auto

lemma bundle_statistics_counts:
  "positive_count (bundle_statistics titles scores) = int (length (filter (\<lambda>s. s > 0.1) scores))"
  "negative_count (bundle_statistics titles scores) = int (length (filter (\<lambda>s. s < - 0.1) scores))"
  "neutral_count (bundle_statistics titles scores) =
     int (length scores) - int (length (filter (\<lambda>s. s > 0.1) scores))
       - int (length (filter (\<lambda>s. s < - 0.1) scores))"
  "total_titles (bundle_statistics titles scores) = int (length titles)"
  "individual_scores (bundle_statistics titles scores) = scores"
  "avg_sentiment_score (bundle_statistics titles scores) = sum_list scores / real (length scores)"
  by (simp_all add: bundle_statistics_def Let_def py_sum_sum_list sum_list_triv)

text \<open>What \<open>analyze_news_titles\<close> returns when it returns: the zero result or the statistics.\<close>

lemma analyze_news_titles_cases:
  assumes "fst (analyze_news_titles model c calls) = Inr r"
  shows "r = zero_scored \<or>
    (\<exists>s. c = Text s \<and> s \<noteq> [] \<and> split_titles s \<noteq> [] \<and>
       r = bundle_statistics (split_titles s) (fst (score_titles model (split_titles s) calls)))"
  using assms by (cases c) (auto simp: Let_def split: if_splits prod.splits)

text \<open>
  The invariant of the loop of the fixed analyzer: the scores grow by one per title, and
  each counter by the number of new scores on its side of the thresholds.
\<close>

lemma fixed_score_loop_inv:
  "fixed_score_loop model titles (sc, p, n, u) calls = ((sc', p', n', u'), calls') \<Longrightarrow>
     (\<exists>new. sc' = sc @ new \<and> length new = length titles
        \<and> p' = p + int (length (filter (\<lambda>s. s > 0.1) new))
        \<and> n' = n + int (length (filter (\<lambda>s. s < - 0.1) new))
        \<and> u' = u + int (length (filter (\<lambda>s. \<not> s > 0.1 \<and> \<not> s < - 0.1) new)))"
proof (induction titles arbitrary: sc p n u calls)
  case Nil
  then show ?case by simp
next
  case (Cons t ts)
  obtain score c1 where a: "analyze_sentiment model t calls = (score, c1)"
    by (cases "analyze_sentiment model t calls")
  show ?case
  proof (cases "score > 0.1")
    case True
    with Cons.prems a
    have "fixed_score_loop model ts (sc @ [score], p + 1, n, u) c1 = ((sc', p', n', u'), calls')"
      by simp
    from Cons.IH[OF this] obtain new where "sc' = (sc @ [score]) @ new" "length new = length ts"
      "p' = p + 1 + int (length (filter (\<lambda>s. s > 0.1) new))"
      "n' = n + int (length (filter (\<lambda>s. s < - 0.1) new))"
      "u' = u + int (length (filter (\<lambda>s. \<not> s > 0.1 \<and> \<not> s < - 0.1) new))" by blast
    with True show ?thesis by (intro exI[of _ "score # new"]) simp
  next
    case False
    show ?thesis
    proof (cases "score < - 0.1")
      case True
      with False Cons.prems a
      have "fixed_score_loop model ts (sc @ [score], p, n + 1, u) c1 = ((sc', p', n', u'), calls')"
        by simp
      from Cons.IH[OF this] obtain new where "sc' = (sc @ [score]) @ new" "length new = length ts"
        "p' = p + int (length (filter (\<lambda>s. s > 0.1) new))"
        "n' = n + 1 + int (length (filter (\<lambda>s. s < - 0.1) new))"
        "u' = u + int (length (filter (\<lambda>s. \<not> s > 0.1 \<and> \<not> s < - 0.1) new))" by blast
      with True False show ?thesis by (intro exI[of _ "score # new"]) simp
    next
      case nn: False
      with False Cons.prems a
      have "fixed_score_loop model ts (sc @ [score], p, n, u + 1) c1 = ((sc', p', n', u'), calls')"
        by simp
      from Cons.IH[OF this] obtain new where "sc' = (sc @ [score]) @ new" "length new = length ts"
        "p' = p + int (length (filter (\<lambda>s. s > 0.1) new))"
        "n' = n + int (length (filter (\<lambda>s. s < - 0.1) new))"
        "u' = u + 1 + int (length (filter (\<lambda>s. \<not> s > 0.1 \<and> \<not> s < - 0.1) new))" by blast
      with nn False show ?thesis by (intro exI[of _ "score # new"]) simp
    qed
  qed
qed

lemma fixed_score_loop_start:
  assumes "fixed_score_loop model titles ([], 0, 0, 0) calls = ((sc, p, n, u), calls')"
  shows "length sc = length titles"
    and "p = int (length (filter (\<lambda>s. s > 0.1) sc))"
    and "n = int (length (filter (\<lambda>s. s < - 0.1) sc))"
    and "u = int (length (filter (\<lambda>s. \<not> s > 0.1 \<and> \<not> s < - 0.1) sc))"
  using fixed_score_loop_inv[OF assms] by auto

lemma fixed_analyze_cases:
  assumes "fst (fixed_analyze_news_titles model c calls) = Inr r"
  shows "r = zero_result \<or>
    (\<exists>s sc p n u calls'. c = Text s \<and> correct_split_titles s \<noteq> [] \<and>
       fixed_score_loop model (correct_split_titles s) ([], 0, 0, 0) calls = ((sc, p, n, u), calls') \<and>
       positive_count r = p \<and> negative_count r = n \<and> neutral_count r = u \<and>
       total_titles r = int (length (correct_split_titles s)))"
  using assms by (cases c) (auto simp: Let_def split: if_splits prod.splits)

subsection \<open>The example, evaluated\<close>

lemma split_example:
  "split_titles example_bundle = [ascii ''good'', ascii ''bad'', ascii ''so so'']"
  by (simp add: example_bundle_def split_titles_def ascii_def clean_text_def py_strip_def
      isspace_def pipe_def)

lemma correct_split_example:
  "correct_split_titles example_bundle = [ascii ''good'', ascii ''bad'', ascii ''so so'']"
  by (simp add: example_bundle_def correct_split_titles_def ascii_def py_strip_def isspace_def
      pipe_def)

lemma analyze_example:
  "analyze_news_titles (table_scorer example_table) (Text example_bundle) 0 =
     (Inr \<lparr>avg_sentiment_score = - (1 / 300), positive_count = 1, negative_count = 1,
           neutral_count = 1, total_titles = 3,
           individual_scores = [7 / 10, - (7 / 10), - (1 / 100)]\<rparr>, 3)"
  by (simp add: split_example Let_def)
     (simp add: example_bundle_def ascii_def get_sentiment_score_def py_strip_def isspace_def
       table_scorer_def example_table_def bundle_statistics_def py_sum_def Let_def)

lemma fixed_analyze_example:
  "fixed_analyze_news_titles (table_star_scorer example_stars) (Text example_bundle) 0 =
     (Inr \<lparr>avg_sentiment_score = 0, positive_count = 1, negative_count = 1, neutral_count = 1,
           total_titles = 3\<rparr>, 3)"
  by (simp add: correct_split_example Let_def)
     (simp add: example_bundle_def ascii_def analyze_sentiment_def py_strip_def isspace_def
       table_star_scorer_def example_stars_def py_sum_def Let_def)

section \<open>The counts of a result\<close>

text \<open>
  C3: every result of \<open>analyze_news_titles\<close>, of the first analyzer and of the fixed
  one, has positive_count + negative_count + neutral_count = total_titles, and none of the
  three counts is negative; the zero result (total_titles = 0) included.
\<close>

theorem counts_sum_to_total:
  "(fst (analyze_news_titles model c calls) = Inr r \<longrightarrow>
      positive_count r + negative_count r + neutral_count r = total_titles r
      \<and> 0 \<le> positive_count r \<and> 0 \<le> negative_count r \<and> 0 \<le> neutral_count r)
   \<and> (fst (fixed_analyze_news_titles star_model c calls) = Inr r' \<longrightarrow>
      positive_count r' + negative_count r' + neutral_count r' = total_titles r'
      \<and> 0 \<le> positive_count r' \<and> 0 \<le> negative_count r' \<and> 0 \<le> neutral_count r')"
proof (intro conjI impI)
  assume a: "fst (analyze_news_titles model c calls) = Inr r"
  from analyze_news_titles_cases[OF a]
  have "positive_count r + negative_count r + neutral_count r = total_titles r
      \<and> 0 \<le> positive_count r \<and> 0 \<le> negative_count r \<and> 0 \<le> neutral_count r"
  proof
    assume "r = zero_scored" then show ?thesis by (simp add: zero_scored_def)
  next
    assume "\<exists>s. c = Text s \<and> s \<noteq> [] \<and> split_titles s \<noteq> [] \<and>
       r = bundle_statistics (split_titles s) (fst (score_titles model (split_titles s) calls))"
    then obtain s where
      r: "r = bundle_statistics (split_titles s) (fst (score_titles model (split_titles s) calls))"
      by blast
    let ?sc = "fst (score_titles model (split_titles s) calls)"
    have "length (filter (\<lambda>s. s > 0.1) ?sc) + length (filter (\<lambda>s. s < - 0.1) ?sc) \<le> length ?sc"
      by (rule filter_disjoint_length)
    then show ?thesis
      unfolding r by (simp add: bundle_statistics_counts length_score_titles)
  qed
  then show "positive_count r + negative_count r + neutral_count r = total_titles r"
    "0 \<le> positive_count r" "0 \<le> negative_count r" "0 \<le> neutral_count r" by simp_all
next
  assume a: "fst (fixed_analyze_news_titles star_model c calls) = Inr r'"
  from fixed_analyze_cases[OF a]
  have "positive_count r' + negative_count r' + neutral_count r' = total_titles r'
      \<and> 0 \<le> positive_count r' \<and> 0 \<le> negative_count r' \<and> 0 \<le> neutral_count r'"
  proof
    assume "r' = zero_result" then show ?thesis by (simp add: zero_result_def)
  next
    assume "\<exists>s sc p n u calls'. c = Text s \<and> correct_split_titles s \<noteq> [] \<and>
       fixed_score_loop star_model (correct_split_titles s) ([], 0, 0, 0) calls = ((sc, p, n, u), calls') \<and>
       positive_count r' = p \<and> negative_count r' = n \<and> neutral_count r' = u \<and>
       total_titles r' = int (length (correct_split_titles s))"
    then obtain s sc p n u calls' where
      l: "fixed_score_loop star_model (correct_split_titles s) ([], 0, 0, 0) calls = ((sc, p, n, u), calls')"
      and f: "positive_count r' = p" "negative_count r' = n" "neutral_count r' = u"
        "total_titles r' = int (length (correct_split_titles s))" by blast
    from fixed_score_loop_start[OF l] three_way_length[of sc] f show ?thesis by simp
  qed
  then show "positive_count r' + negative_count r' + neutral_count r' = total_titles r'"
    "0 \<le> positive_count r'" "0 \<le> negative_count r'" "0 \<le> neutral_count r'" by simp_all
qed

theorem counts_sum_to_total_witness:
  "fst (analyze_news_titles (table_scorer example_table) (Text example_bundle) 0) =
     Inr \<lparr>avg_sentiment_score = - (1 / 300), positive_count = 1, negative_count = 1,
          neutral_count = 1, total_titles = 3,
          individual_scores = [7 / 10, - (7 / 10), - (1 / 100)]\<rparr>
   \<and> fst (fixed_analyze_news_titles (table_star_scorer example_stars) (Text example_bundle) 0) =
     Inr \<lparr>avg_sentiment_score = 0, positive_count = 1, negative_count = 1, neutral_count = 1,
          total_titles = 3\<rparr>
   \<and> (1::int) + 1 + 1 = 3"
proof -
  have h1: "fst (analyze_news_titles (table_scorer example_table) (Text example_bundle) 0) =
     Inr \<lparr>avg_sentiment_score = - (1 / 300), positive_count = 1, negative_count = 1,
          neutral_count = 1, total_titles = 3,
          individual_scores = [7 / 10, - (7 / 10), - (1 / 100)]\<rparr>"
    by (simp only: analyze_example fst_conv)
  have h2: "fst (fixed_analyze_news_titles (table_star_scorer example_stars) (Text example_bundle) 0) =
     Inr \<lparr>avg_sentiment_score = 0, positive_count = 1, negative_count = 1, neutral_count = 1,
          total_titles = 3\<rparr>"
    by (simp only: fixed_analyze_example fst_conv)
  from counts_sum_to_total
    [of "table_scorer example_table" "Text example_bundle" 0 _ "table_star_scorer example_stars"]
    h1 h2
  show ?thesis by simp
qed

section \<open>The item splitter\<close>

text \<open>
  C7: on the bundle \<open>a|b||  |c\<close> the splitting of both analyzers yields exactly the
  items a, b, c, in the order of the bundle; the empty piece and the whitespace-only
  piece are dropped.
\<close>

theorem split_example_bundle:
  "split_titles (ascii ''a|b||  |c'') = [ascii ''a'', ascii ''b'', ascii ''c'']
   \<and> correct_split_titles (ascii ''a|b||  |c'') = [ascii ''a'', ascii ''b'', ascii ''c'']"
  by (simp add: split_titles_def correct_split_titles_def ascii_def clean_text_def py_strip_def
      isspace_def pipe_def)

section \<open>The signed score\<close>

text \<open>
  C9: when the scorer returns a distribution of non-negative probabilities that sum to 1,
  the signed score, positive minus negative, lies in the closed interval from -1 to 1;
  for \<open>SentimentAnalyzer.get_sentiment_score\<close> and for the function of BERT_main.py.
\<close>

theorem signed_score_range:
  assumes "model calls item = Inr (neutral, negative, positive)"
    and "0 \<le> neutral" and "0 \<le> negative" and "0 \<le> positive"
    and "neutral + negative + positive = 1"
  shows "- 1 \<le> sentiment_score (fst (get_sentiment_score model item calls))
       \<and> sentiment_score (fst (get_sentiment_score model item calls)) \<le> 1
       \<and> bert_get_sentiment_score model item calls = Inr (positive - negative)
       \<and> - 1 \<le> positive - negative \<and> positive - negative \<le> 1"
  using assms
  by (auto simp: get_sentiment_score_def bert_get_sentiment_score_def zero_score_def)

theorem signed_score_range_witness:
  "table_scorer example_table 0 (ascii ''good'') = Inr (0.1, 0.1, 0.8)
   \<and> (0.1::real) + 0.1 + 0.8 = 1
   \<and> sentiment_score (fst (get_sentiment_score (table_scorer example_table) (ascii ''good'') 0)) = 0.7
   \<and> bert_get_sentiment_score (table_scorer example_table) (ascii ''good'') 0 = Inr 0.7"
proof -
  have h: "table_scorer example_table 0 (ascii ''good'') = Inr (0.1, 0.1, 0.8)"
    by (simp add: table_scorer_def example_table_def)
  have s: "sentiment_score (fst (get_sentiment_score (table_scorer example_table) (ascii ''good'') 0)) = 0.7"
    by (simp add: get_sentiment_score_def h) (simp add: ascii_def py_strip_def isspace_def)
  from signed_score_range
    [where model = "table_scorer example_table" and calls = 0 and item = "ascii ''good''"
       and neutral = "0.1" and negative = "0.1" and positive = "0.8"] h s
  show ?thesis by (simp add: bert_get_sentiment_score_def)
qed

section \<open>Empty bundles\<close>

lemma blank_pieces: "py_split pipe blank_bundle = [[], [32], [32, 32]]"
  by (simp add: blank_bundle_def ascii_def pipe_def)

lemma blank_clean: "map clean_text [[], [32], [32, 32]] = [[], [], []]"
  by (simp add: clean_text_def py_strip_def isspace_def)

lemma blank_strip: "map py_strip [[], [32], [32, 32]] = [[], [], []]"
  by (simp add: py_strip_def isspace_def)

text \<open>
  C5: for a missing bundle, an empty one, and one whose pieces all normalise to the empty
  string, \<open>analyze_news_titles\<close> returns the all-zero result and the number of scorer
  invocations is unchanged: the scorer is never invoked. For the first analyzer the
  pieces are normalised by \<open>clean_text\<close>, for the second by \<open>strip\<close>.
\<close>

theorem empty_bundle_zero_result:
  "(c = Missing \<or> (\<exists>s. c = Text s \<and> (\<forall>p \<in> set (py_split pipe s). clean_text p = []))
      \<longrightarrow> analyze_news_titles model c calls = (Inr zero_scored, calls))
   \<and> (c = Missing \<or> (\<exists>s. c = Text s \<and> (\<forall>p \<in> set (py_split pipe s). py_strip p = []))
      \<longrightarrow> correct_analyze_news_titles model c calls = (Inr zero_result, calls))"
  by (auto simp: split_titles_def correct_split_titles_def filter_empty_conv Let_def)

theorem empty_bundle_zero_result_witness:
  "py_split pipe blank_bundle = [[], [32], [32, 32]]
   \<and> map clean_text [[], [32], [32, 32]] = [[], [], []]
   \<and> map py_strip [[], [32], [32, 32]] = [[], [], []]
   \<and> analyze_news_titles (table_scorer example_table) (Text blank_bundle) 0 = (Inr zero_scored, 0)
   \<and> correct_analyze_news_titles (table_scorer example_table) (Text blank_bundle) 0
        = (Inr zero_result, 0)"
proof -
  have h1: "\<forall>p \<in> set (py_split pipe blank_bundle). clean_text p = []"
    using blank_clean by (simp add: blank_pieces)
  have h2: "\<forall>p \<in> set (py_split pipe blank_bundle). py_strip p = []"
    using blank_strip by (simp add: blank_pieces)
  from empty_bundle_zero_result[of "Text blank_bundle" "table_scorer example_table" 0] h1 h2
  show ?thesis by (simp add: blank_pieces blank_clean blank_strip)
qed

section \<open>Classification by the thresholds\<close>

lemma fixed_loop_example:
  "fixed_score_loop (table_star_scorer example_stars) [ascii ''good'', ascii ''bad'', ascii ''so so'']
      ([], 0, 0, 0) 0 = (([1, - 1, 0], 1, 1, 1), 3)"
  by (simp add: ascii_def analyze_sentiment_def py_strip_def isspace_def
       table_star_scorer_def example_stars_def)

text \<open>
  C4: the classification is a function of the signed score alone, with the thresholds
  0.1 and -0.1: Positive exactly above 0.1, Negative exactly below -0.1, Neutral
  otherwise, the two boundary values included in Neutral. The counts of both analyzers
  are the numbers of scores in each class: those of the statistics of the first
  analyzer, and the counters of the loop of the fixed one.
\<close>

theorem classification_by_thresholds:
  "(spec_classify s = Positive \<longleftrightarrow> s > 0.1)
   \<and> (spec_classify s = Negative \<longleftrightarrow> s < - 0.1)
   \<and> (spec_classify s = Neutral \<longleftrightarrow> - 0.1 \<le> s \<and> s \<le> 0.1)
   \<and> spec_classify 0.1 = Neutral \<and> spec_classify (- 0.1) = Neutral
   \<and> positive_count (bundle_statistics titles scores) =
        int (length (filter (\<lambda>x. spec_classify x = Positive) scores))
   \<and> negative_count (bundle_statistics titles scores) =
        int (length (filter (\<lambda>x. spec_classify x = Negative) scores))
   \<and> neutral_count (bundle_statistics titles scores) =
        int (length (filter (\<lambda>x. spec_classify x = Neutral) scores))
   \<and> (fixed_score_loop star_model titles ([], 0, 0, 0) calls = ((sc, pos, neg, neu), calls') \<longrightarrow>
        pos = int (length (filter (\<lambda>x. spec_classify x = Positive) sc))
        \<and> neg = int (length (filter (\<lambda>x. spec_classify x = Negative) sc))
        \<and> neu = int (length (filter (\<lambda>x. spec_classify x = Neutral) sc)))"
proof -
  have P: "(\<lambda>x. spec_classify x = Positive) = (\<lambda>x. x > 0.1)"
    by (auto simp: spec_classify_def fun_eq_iff)
  have N: "(\<lambda>x. spec_classify x = Negative) = (\<lambda>x. x < - 0.1)"
    by (auto simp: spec_classify_def fun_eq_iff)
  have U: "(\<lambda>x. spec_classify x = Neutral) = (\<lambda>x. \<not> x > 0.1 \<and> \<not> x < - 0.1)"
    by (auto simp: spec_classify_def fun_eq_iff)
  have a: "(spec_classify s = Positive \<longleftrightarrow> s > 0.1)
   \<and> (spec_classify s = Negative \<longleftrightarrow> s < - 0.1)
   \<and> (spec_classify s = Neutral \<longleftrightarrow> - 0.1 \<le> s \<and> s \<le> 0.1)
   \<and> spec_classify 0.1 = Neutral \<and> spec_classify (- 0.1) = Neutral"
    by (auto simp: spec_classify_def)
  have b: "neutral_count (bundle_statistics titles scores) =
        int (length (filter (\<lambda>x. \<not> x > 0.1 \<and> \<not> x < - 0.1) scores))"
    using three_way_length[of scores] by (simp add: bundle_statistics_counts)
  have c: "fixed_score_loop star_model titles ([], 0, 0, 0) calls = ((sc, pos, neg, neu), calls') \<longrightarrow>
        pos = int (length (filter (\<lambda>x. x > 0.1) sc))
        \<and> neg = int (length (filter (\<lambda>x. x < - 0.1) sc))
        \<and> neu = int (length (filter (\<lambda>x. \<not> x > 0.1 \<and> \<not> x < - 0.1) sc))"
  proof
    assume h: "fixed_score_loop star_model titles ([], 0, 0, 0) calls = ((sc, pos, neg, neu), calls')"
    from fixed_score_loop_start(2,3,4)[OF h]
    show "pos = int (length (filter (\<lambda>x. x > 0.1) sc))
        \<and> neg = int (length (filter (\<lambda>x. x < - 0.1) sc))
        \<and> neu = int (length (filter (\<lambda>x. \<not> x > 0.1 \<and> \<not> x < - 0.1) sc))"
      by simp
  qed
  show ?thesis
    unfolding P N U
    using a b c bundle_statistics_counts(1)[of titles scores]
      bundle_statistics_counts(2)[of titles scores]
    by blast
qed

theorem classification_by_thresholds_witness:
  "fixed_score_loop (table_star_scorer example_stars) [ascii ''good'', ascii ''bad'', ascii ''so so'']
      ([], 0, 0, 0) 0 = (([1, - 1, 0], 1, 1, 1), 3)
   \<and> int (length (filter (\<lambda>x. spec_classify x = Positive) [1, - 1, 0])) = 1
   \<and> int (length (filter (\<lambda>x. spec_classify x = Negative) [1, - 1, 0])) = 1
   \<and> int (length (filter (\<lambda>x. spec_classify x = Neutral) [1, - 1, 0])) = 1"
  using classification_by_thresholds
    [where star_model = "table_star_scorer example_stars"
       and titles = "[ascii ''good'', ascii ''bad'', ascii ''so so'']"
       and calls = 0 and sc = "[1, - 1, 0]" and pos = 1 and neg = 1 and neu = 1 and calls' = 3]
    fixed_loop_example
  by simp

section \<open>The row loop\<close>

lemma analyze_ok:
  "c = Missing \<or> (\<exists>s. c = Text s) \<Longrightarrow> \<exists>r calls'. analyze_news_titles model c calls = (Inr r, calls')"
  by (cases c) (auto simp: Let_def split: prod.splits)

lemma analyze_not_ok:
  "c = IntCell n \<or> c = FloatCell x \<Longrightarrow> analyze_news_titles model c calls = (Inl AttributeError, calls)"
  by auto

lemma row_ok_analyze:
  assumes "row_ok r"
  shows "\<exists>d res calls'. map_of r ''date'' = Some d \<and>
     analyze_news_titles model (row_get r ''news_titles'' (Text [])) calls = (Inr res, calls')"
proof -
  from assms obtain d where d: "map_of r ''date'' = Some d" by (auto simp: row_ok_def)
  from assms have "row_get r ''news_titles'' (Text []) = Missing
      \<or> (\<exists>s. row_get r ''news_titles'' (Text []) = Text s)"
    by (auto simp: row_ok_def split: cell.splits)
  from analyze_ok[OF this] d show ?thesis by blast
qed

lemma analyze_rows_ok:
  "list_all row_ok rows \<Longrightarrow>
     \<exists>results calls'. analyze_rows model rows calls = (Inr results, calls') \<and> length results = length rows"
proof (induction rows arbitrary: calls)
  case Nil
  then show ?case by simp
next
  case (Cons r rows)
  from Cons.prems have "row_ok r" "list_all row_ok rows" by simp_all
  from row_ok_analyze[OF this(1), of model calls] obtain d res c1 where
    d: "map_of r ''date'' = Some d"
    and a: "analyze_news_titles model (row_get r ''news_titles'' (Text [])) calls = (Inr res, c1)"
    by blast
  from Cons.IH[OF \<open>list_all row_ok rows\<close>, of c1] obtain results c2 where
    "analyze_rows model rows c1 = (Inr results, c2)" "length results = length rows" by blast
  with d a show ?case by simp
qed

lemma row_not_ok_raises:
  assumes "\<not> row_ok r"
  shows "\<exists>e c'. analyze_rows model (r # post) calls = (Inl e, c')"
proof (cases "map_of r ''date''")
  case None
  then show ?thesis by simp
next
  case (Some d)
  with assms have "(\<exists>n. row_get r ''news_titles'' (Text []) = IntCell n)
      \<or> (\<exists>x. row_get r ''news_titles'' (Text []) = FloatCell x)"
    by (auto simp: row_ok_def split: cell.splits)
  then have "analyze_news_titles model (row_get r ''news_titles'' (Text [])) calls = (Inl AttributeError, calls)"
    by auto
  with Some show ?thesis by simp
qed

lemma analyze_rows_raises:
  "list_all row_ok pre \<Longrightarrow> \<not> row_ok r \<Longrightarrow>
     \<exists>e c'. analyze_rows model (pre @ r # post) calls = (Inl e, c')"
proof (induction pre arbitrary: calls)
  case Nil
  then show ?case using row_not_ok_raises[of r model post calls] by simp
next
  case (Cons p pre)
  from Cons.prems have "row_ok p" "list_all row_ok pre" by simp_all
  from row_ok_analyze[OF this(1), of model calls] obtain d res c1 where
    d: "map_of p ''date'' = Some d"
    and a: "analyze_news_titles model (row_get p ''news_titles'' (Text [])) calls = (Inr res, c1)"
    by blast
  from Cons.IH[OF \<open>list_all row_ok pre\<close> Cons.prems(2), of c1] obtain e c2 where
    "analyze_rows model (pre @ r # post) c1 = (Inl e, c2)" by blast
  with d a show ?case by simp
qed

lemma correct_analyze_ok:
  "c = Missing \<or> (\<exists>s. c = Text s) \<Longrightarrow>
     \<exists>r calls'. correct_analyze_news_titles model c calls = (Inr r, calls')"
  by (cases c) (auto simp: Let_def split: prod.splits)

lemma correct_row_ok_analyze:
  assumes "correct_row_ok r"
  shows "\<exists>c res calls'. map_of r ''news_titles'' = Some c \<and>
     correct_analyze_news_titles model c calls = (Inr res, calls')"
proof -
  from assms obtain c where c: "map_of r ''news_titles'' = Some c"
    and "c = Missing \<or> (\<exists>s. c = Text s)"
    by (auto simp: correct_row_ok_def split: option.splits cell.splits)
  from correct_analyze_ok[OF this(2)] c show ?thesis by blast
qed

lemma correct_process_rows_ok:
  "list_all correct_row_ok rows \<Longrightarrow>
     \<exists>out calls'. correct_process_rows model rows calls = (Inr out, calls') \<and> length out = length rows"
proof (induction rows arbitrary: calls)
  case Nil
  then show ?case by simp
next
  case (Cons r rows)
  from Cons.prems have "correct_row_ok r" "list_all correct_row_ok rows" by simp_all
  from correct_row_ok_analyze[OF this(1), of model calls] obtain c res c1 where
    d: "map_of r ''news_titles'' = Some c"
    and a: "correct_analyze_news_titles model c calls = (Inr res, c1)"
    by blast
  from Cons.IH[OF \<open>list_all correct_row_ok rows\<close>, of c1] obtain out c2 where
    "correct_process_rows model rows c1 = (Inr out, c2)" "length out = length rows" by blast
  with d a show ?case by simp
qed

lemma correct_row_not_ok_raises:
  assumes "\<not> correct_row_ok r"
  shows "\<exists>e c'. correct_process_rows model (r # post) calls = (Inl e, c')"
proof (cases "map_of r ''news_titles''")
  case None
  then show ?thesis by simp
next
  case (Some c)
  with assms have "(\<exists>n. c = IntCell n) \<or> (\<exists>x. c = FloatCell x)"
    by (auto simp: correct_row_ok_def split: cell.splits)
  then have "correct_analyze_news_titles model c calls = (Inl AttributeError, calls)"
    by auto
  with Some show ?thesis by simp
qed

lemma correct_process_rows_raises:
  "list_all correct_row_ok pre \<Longrightarrow> \<not> correct_row_ok r \<Longrightarrow>
     \<exists>e c'. correct_process_rows model (pre @ r # post) calls = (Inl e, c')"
proof (induction pre arbitrary: calls)
  case Nil
  then show ?case using correct_row_not_ok_raises[of r model post calls] by simp
next
  case (Cons p pre)
  from Cons.prems have "correct_row_ok p" "list_all correct_row_ok pre" by simp_all
  from correct_row_ok_analyze[OF this(1), of model calls] obtain c res c1 where
    d: "map_of p ''news_titles'' = Some c"
    and a: "correct_analyze_news_titles model c calls = (Inr res, c1)"
    by blast
  from Cons.IH[OF \<open>list_all correct_row_ok pre\<close> Cons.prems(2), of c1] obtain e c2 where
    "correct_process_rows model (pre @ r # post) c1 = (Inl e, c2)" by blast
  with d a show ?case by simp
qed

lemma numeric_rows_abort:
  "process_csv_with_sentiment (table_scorer example_table) numeric_rows = Inl AttributeError"
  by (simp add: process_csv_with_sentiment_def numeric_rows_def first_row_def numeric_row_def
      last_row_def row_get_def)

lemma correct_numeric_rows_abort:
  "correct_process_csv (table_scorer example_table) numeric_rows False = Inl AttributeError"
  by (simp add: correct_process_csv_def numeric_rows_def first_row_def numeric_row_def
      last_row_def)

lemma example_rows_ok: "list_all row_ok example_rows" "list_all correct_row_ok example_rows"
  by (simp_all add: example_rows_def row_ok_def correct_row_ok_def row_get_def)

lemma numeric_row_not_ok:
  "list_all row_ok [first_row]" "\<not> row_ok numeric_row"
  "list_all correct_row_ok [first_row]" "\<not> correct_row_ok numeric_row"
  by (simp_all add: first_row_def numeric_row_def row_ok_def correct_row_ok_def row_get_def)

text \<open>
  C1, as the code has it: the exceptions of the scorer are absorbed inside
  \<open>get_sentiment_score\<close> and never reach the row loop, so for every scorer, also one
  that always raises, a dataset whose rows all process without raising is processed to
  the end, with one output row per input row. The row loop has no handler of its own: when the rows before
  row k process and row k raises (no \<open>date\<close> column, or a numeric bundle cell), the
  run ends with that exception and nothing is written. The same holds for
  \<open>CorrectSentimentAnalyzer.process_csv\<close>.
\<close>

theorem row_failure_ends_the_run:
  "(list_all row_ok rows \<longrightarrow>
      (\<exists>out. process_csv_with_sentiment model rows = Inr out \<and> length out = length rows))
   \<and> (list_all row_ok pre \<and> \<not> row_ok r \<longrightarrow>
      (\<exists>e. process_csv_with_sentiment model (pre @ r # post) = Inl e))
   \<and> (list_all correct_row_ok rows \<longrightarrow>
      (\<exists>out. correct_process_csv model rows False = Inr out \<and> length out = length rows))
   \<and> (list_all correct_row_ok pre \<and> \<not> correct_row_ok r \<longrightarrow>
      (\<exists>e. correct_process_csv model (pre @ r # post) False = Inl e))"
proof (intro conjI impI)
  assume "list_all row_ok rows"
  from analyze_rows_ok[OF this, of model 0] obtain results c where
    a: "analyze_rows model rows 0 = (Inr results, c)" and l: "length results = length rows"
    by blast
  then show "\<exists>out. process_csv_with_sentiment model rows = Inr out \<and> length out = length rows"
    by (simp add: process_csv_with_sentiment_def)
next
  assume "list_all row_ok pre \<and> \<not> row_ok r"
  then have "list_all row_ok pre" "\<not> row_ok r" by simp_all
  from analyze_rows_raises[OF this, of model post 0] obtain e c where
    "analyze_rows model (pre @ r # post) 0 = (Inl e, c)" by blast
  then show "\<exists>e. process_csv_with_sentiment model (pre @ r # post) = Inl e"
    by (simp add: process_csv_with_sentiment_def)
next
  assume "list_all correct_row_ok rows"
  from correct_process_rows_ok[OF this, of model 0]
  show "\<exists>out. correct_process_csv model rows False = Inr out \<and> length out = length rows"
    by (auto simp: correct_process_csv_def)
next
  assume "list_all correct_row_ok pre \<and> \<not> correct_row_ok r"
  then have "list_all correct_row_ok pre" "\<not> correct_row_ok r" by simp_all
  from correct_process_rows_raises[OF this, of model post 0]
  show "\<exists>e. correct_process_csv model (pre @ r # post) False = Inl e"
    by (auto simp: correct_process_csv_def)
qed

theorem row_failure_ends_the_run_witness:
  "list_all row_ok example_rows \<and> list_all correct_row_ok example_rows
   \<and> (\<exists>out. process_csv_with_sentiment (table_scorer []) example_rows = Inr out \<and> length out = 2)
   \<and> (\<exists>out. correct_process_csv (table_scorer []) example_rows False = Inr out \<and> length out = 2)
   \<and> list_all row_ok [first_row] \<and> \<not> row_ok numeric_row
   \<and> list_all correct_row_ok [first_row] \<and> \<not> correct_row_ok numeric_row
   \<and> (\<exists>e. process_csv_with_sentiment (table_scorer []) ([first_row] @ numeric_row # [last_row]) = Inl e)
   \<and> (\<exists>e. correct_process_csv (table_scorer []) ([first_row] @ numeric_row # [last_row]) False = Inl e)"
proof -
  have l: "length example_rows = 2" by (simp add: example_rows_def)
  from row_failure_ends_the_run
    [where rows = example_rows and model = "table_scorer []" and pre = "[first_row]"
       and r = numeric_row and post = "[last_row]"]
    example_rows_ok numeric_row_not_ok l
  show ?thesis by simp
qed

text \<open>
  C1 as stated fails: with a number in the bundle cell of the second of three rows, both
  row processors end with AttributeError instead of writing a zero result for that row
  and going on to the third.
\<close>

theorem numeric_bundle_aborts_run:
  "process_csv_with_sentiment (table_scorer example_table) [first_row, numeric_row, last_row]
     = Inl AttributeError
   \<and> correct_process_csv (table_scorer example_table) [first_row, numeric_row, last_row] False
     = Inl AttributeError"
  using numeric_rows_abort correct_numeric_rows_abort by (simp add: numeric_rows_def)

section \<open>One output row per input row\<close>

lemma analyze_rows_results:
  "analyze_rows model rows calls = (Inr results, calls') \<Longrightarrow>
     list_all2 (\<lambda>r res. \<exists>c a.
        fst (analyze_news_titles model (row_get r ''news_titles'' (Text [])) c) = Inr a
        \<and> res = sentiment_entry a) rows results"
proof (induction rows arbitrary: calls results)
  case Nil
  then show ?case by simp
next
  case (Cons r rows)
  from Cons.prems obtain d where d: "map_of r ''date'' = Some d"
    by (cases "map_of r ''date''") auto
  obtain x c1 where a: "analyze_news_titles model (row_get r ''news_titles'' (Text [])) calls = (x, c1)"
    by (cases "analyze_news_titles model (row_get r ''news_titles'' (Text [])) calls")
  from Cons.prems d a obtain res where x: "x = Inr res" by (cases x) auto
  obtain y c2 where b: "analyze_rows model rows c1 = (y, c2)"
    by (cases "analyze_rows model rows c1")
  from Cons.prems d a x b obtain rest where y: "y = Inr rest" by (cases y) auto
  from Cons.prems d a x b y have results: "results = sentiment_entry res # rest"
    and c2: "c2 = calls'" by simp_all
  from Cons.IH[of c1 rest] b y c2 have
    "list_all2 (\<lambda>r res. \<exists>c a.
        fst (analyze_news_titles model (row_get r ''news_titles'' (Text [])) c) = Inr a
        \<and> res = sentiment_entry a) rows rest" by simp
  moreover have "\<exists>c a. fst (analyze_news_titles model (row_get r ''news_titles'' (Text [])) c) = Inr a
        \<and> sentiment_entry res = sentiment_entry a"
    using a x by (intro exI[of _ calls] exI[of _ res]) simp
  ultimately show ?case unfolding results by simp
qed

lemma process_example_rows:
  "process_csv_with_sentiment (table_scorer example_table) example_rows =
     Inr [[(''date'', Text (ascii ''2024-01-04'')), (''jump'', FloatCell 1.5),
           (''news_titles'', Missing),
           (''avg_sentiment_score'', FloatCell 0), (''positive_count'', IntCell 0),
           (''negative_count'', IntCell 0), (''neutral_count'', IntCell 0),
           (''total_titles'', IntCell 0)],
          [(''date'', Text (ascii ''2024-01-05'')), (''jump'', FloatCell 0.5),
           (''news_titles'', Text example_bundle),
           (''avg_sentiment_score'', FloatCell (- (1 / 300))), (''positive_count'', IntCell 1),
           (''negative_count'', IntCell 1), (''neutral_count'', IntCell 1),
           (''total_titles'', IntCell 3)]]"
  by (simp add: process_csv_with_sentiment_def example_rows_def row_get_def analyze_example
      zero_scored_def sentiment_entry_def sentiment_columns_def del: analyze_news_titles.simps(4))

lemma completed_run_rows:
  assumes "process_csv_with_sentiment model rows = Inr out"
  shows "length out = length rows
    \<and> (\<forall>k < length rows.
         take (length (rows ! k)) (out ! k) = rows ! k
         \<and> map fst (drop (length (rows ! k)) (out ! k)) =
             [''avg_sentiment_score'', ''positive_count'', ''negative_count'',
              ''neutral_count'', ''total_titles'']
         \<and> (\<exists>c a. fst (analyze_news_titles model
                           (row_get (rows ! k) ''news_titles'' (Text [])) c) = Inr a
                \<and> out ! k = rows ! k @ sentiment_columns (sentiment_entry a)))"
proof -
  obtain x c where x: "analyze_rows model rows 0 = (x, c)"
    by (cases "analyze_rows model rows 0")
  with assms obtain results where r: "x = Inr results"
    by (cases x) (auto simp: process_csv_with_sentiment_def)
  from assms x r have out: "out = map (\<lambda>(r, result). r @ sentiment_columns result) (zip rows results)"
    by (simp add: process_csv_with_sentiment_def)
  from analyze_rows_results[of model rows 0 results c] x r have
    l2: "list_all2 (\<lambda>r res. \<exists>c a.
        fst (analyze_news_titles model (row_get r ''news_titles'' (Text [])) c) = Inr a
        \<and> res = sentiment_entry a) rows results" by simp
  then have len: "length results = length rows" by (simp add: list_all2_lengthD)
  have "length out = length rows" using out len by simp
  moreover have "\<forall>k < length rows.
         take (length (rows ! k)) (out ! k) = rows ! k
         \<and> map fst (drop (length (rows ! k)) (out ! k)) =
             [''avg_sentiment_score'', ''positive_count'', ''negative_count'',
              ''neutral_count'', ''total_titles'']
         \<and> (\<exists>c a. fst (analyze_news_titles model
                           (row_get (rows ! k) ''news_titles'' (Text [])) c) = Inr a
                \<and> out ! k = rows ! k @ sentiment_columns (sentiment_entry a))"
  proof (intro allI impI)
    fix k assume k: "k < length rows"
    from k len have o: "out ! k = rows ! k @ sentiment_columns (results ! k)"
      unfolding out by simp
    from list_all2_nthD[OF l2 k] obtain c a where
      a: "fst (analyze_news_titles model (row_get (rows ! k) ''news_titles'' (Text [])) c) = Inr a"
      and e: "results ! k = sentiment_entry a" by blast
    show "take (length (rows ! k)) (out ! k) = rows ! k
         \<and> map fst (drop (length (rows ! k)) (out ! k)) =
             [''avg_sentiment_score'', ''positive_count'', ''negative_count'',
              ''neutral_count'', ''total_titles'']
         \<and> (\<exists>c a. fst (analyze_news_titles model
                           (row_get (rows ! k) ''news_titles'' (Text [])) c) = Inr a
                \<and> out ! k = rows ! k @ sentiment_columns (sentiment_entry a))"
      using o a e by (auto simp: sentiment_columns_def)
  qed
  ultimately show ?thesis by blast
qed

lemma first_raising_row:
  assumes "\<not> list_all row_ok rows"
  shows "\<exists>pre r post. rows = pre @ r # post \<and> list_all row_ok pre \<and> \<not> row_ok r"
proof -
  from assms have "\<exists>x \<in> set rows. \<not> row_ok x" by (simp add: list_all_iff)
  from split_list_first_prop[OF this] obtain pre r post where
    "rows = pre @ r # post" "\<not> row_ok r" "\<forall>y \<in> set pre. \<not> \<not> row_ok y" by blast
  then show ?thesis by (auto simp: list_all_iff)
qed

lemma undated_rows_abort:
  "process_csv_with_sentiment (table_scorer example_table) undated_rows = Inl KeyError"
  by (simp add: process_csv_with_sentiment_def undated_rows_def)

text \<open>
  C6, as the code has it: \<open>process_csv_with_sentiment\<close> writes its output exactly
  when no row raises, that is when every row has a \<open>date\<close> column and a bundle cell
  that is absent, missing or a string. The output then has exactly one row per input row,
  in the input order (none for an empty dataset): the k-th output row is the k-th input
  row, its columns unchanged and in place, followed by exactly the five sentiment
  columns, whose values are the result of analysing the bundle of that row. When a row
  raises, no output row is written at all.
\<close>

theorem one_output_row_per_input_row:
  "(list_all row_ok rows \<longrightarrow> (\<exists>out. process_csv_with_sentiment model rows = Inr out))
   \<and> (\<not> list_all row_ok rows \<longrightarrow> (\<exists>e. process_csv_with_sentiment model rows = Inl e))
   \<and> (process_csv_with_sentiment model rows = Inr out \<longrightarrow>
        length out = length rows
        \<and> (\<forall>k < length rows.
             take (length (rows ! k)) (out ! k) = rows ! k
             \<and> map fst (drop (length (rows ! k)) (out ! k)) =
                 [''avg_sentiment_score'', ''positive_count'', ''negative_count'',
                  ''neutral_count'', ''total_titles'']
             \<and> (\<exists>c a. fst (analyze_news_titles model
                               (row_get (rows ! k) ''news_titles'' (Text [])) c) = Inr a
                    \<and> out ! k = rows ! k @ sentiment_columns (sentiment_entry a))))"
proof (intro conjI impI)
  assume "list_all row_ok rows"
  from analyze_rows_ok[OF this, of model 0]
  show "\<exists>out. process_csv_with_sentiment model rows = Inr out"
    by (auto simp: process_csv_with_sentiment_def)
next
  assume "\<not> list_all row_ok rows"
  from first_raising_row[OF this] obtain pre r post where
    rows: "rows = pre @ r # post" and ok: "list_all row_ok pre" "\<not> row_ok r" by blast
  from analyze_rows_raises[OF ok, of model post 0]
  show "\<exists>e. process_csv_with_sentiment model rows = Inl e"
    unfolding rows by (auto simp: process_csv_with_sentiment_def)
next
  assume a: "process_csv_with_sentiment model rows = Inr out"
  from completed_run_rows[OF a]
  show "length out = length rows" by blast
next
  assume a: "process_csv_with_sentiment model rows = Inr out"
  from completed_run_rows[OF a]
  show "\<forall>k < length rows.
             take (length (rows ! k)) (out ! k) = rows ! k
             \<and> map fst (drop (length (rows ! k)) (out ! k)) =
                 [''avg_sentiment_score'', ''positive_count'', ''negative_count'',
                  ''neutral_count'', ''total_titles'']
             \<and> (\<exists>c a. fst (analyze_news_titles model
                               (row_get (rows ! k) ''news_titles'' (Text [])) c) = Inr a
                    \<and> out ! k = rows ! k @ sentiment_columns (sentiment_entry a))" by blast
qed

theorem one_output_row_per_input_row_witness:
  "list_all row_ok example_rows
   \<and> process_csv_with_sentiment (table_scorer example_table) example_rows =
     Inr [[(''date'', Text (ascii ''2024-01-04'')), (''jump'', FloatCell 1.5),
           (''news_titles'', Missing),
           (''avg_sentiment_score'', FloatCell 0), (''positive_count'', IntCell 0),
           (''negative_count'', IntCell 0), (''neutral_count'', IntCell 0),
           (''total_titles'', IntCell 0)],
          [(''date'', Text (ascii ''2024-01-05'')), (''jump'', FloatCell 0.5),
           (''news_titles'', Text example_bundle),
           (''avg_sentiment_score'', FloatCell (- (1 / 300))), (''positive_count'', IntCell 1),
           (''negative_count'', IntCell 1), (''neutral_count'', IntCell 1),
           (''total_titles'', IntCell 3)]]
   \<and> length example_rows = 2"
proof -
  have l: "length example_rows = 2" by (simp add: example_rows_def)
  from one_output_row_per_input_row
    [where rows = example_rows and model = "table_scorer example_table"]
    example_rows_ok(1) process_example_rows l
  show ?thesis by blast
qed

text \<open>
  C6 as stated fails: a dataset of one row that has no \<open>date\<close> column gets no output
  row; the progress line of the loop raises KeyError.
\<close>

theorem undated_dataset_has_no_output:
  "length undated_rows = 1
   \<and> process_csv_with_sentiment (table_scorer example_table) undated_rows = Inl KeyError"
  by (simp add: undated_rows_abort) (simp add: undated_rows_def)

section \<open>Failures of the scorer\<close>




lemma softmax_sums_to_one: "sums_to_one (softmax l)"
proof -
  obtain a b c where l: "l = (a, b, c)" by (cases l)
  have "0 < exp a + exp b + exp c" by (simp add: add_pos_pos)
  then have "exp a / (exp a + exp b + exp c) + exp b / (exp a + exp b + exp c)
      + exp c / (exp a + exp b + exp c) = 1"
    by (simp add: add_divide_distrib[symmetric])
  then show ?thesis by (simp add: sums_to_one_def softmax_def l)
qed




section \<open>Normalizing twice\<close>

lemma isspace_32: "isspace 32"
  by (simp add: isspace_def)

lemma collapse_ws_hd:
  "s \<noteq> [] \<Longrightarrow> \<not> isspace (hd s) \<Longrightarrow> collapse_ws s \<noteq> [] \<and> hd (collapse_ws s) = hd s"
  by (cases s) simp_all

lemma dropWhile_hd_not: "dropWhile P xs = [] \<or> \<not> P (hd (dropWhile P xs))"
  by (metis hd_dropWhile)

lemma ws_normal_collapse: "ws_normal (collapse_ws s)"
proof (induction s rule: collapse_ws.induct)
  case 1
  then show ?case by simp
next
  case (2 c cs)
  show ?case
  proof (cases "isspace c")
    case True
    let ?d = "dropWhile isspace cs"
    from True 2 have n: "ws_normal (collapse_ws ?d)" by simp
    have "collapse_ws ?d = [] \<or> \<not> isspace (hd (collapse_ws ?d))"
    proof (cases "?d = []")
      case True
      then show ?thesis by (metis collapse_ws.simps(1))
    next
      case False
      with dropWhile_hd_not[of isspace cs] have "\<not> isspace (hd ?d)" by blast
      with False collapse_ws_hd[of ?d] show ?thesis by metis
    qed
    with True n show ?thesis by simp
  next
    case False
    with 2 show ?thesis by simp
  qed
qed

lemma collapse_ws_normal: "ws_normal s \<Longrightarrow> collapse_ws s = s"
proof (induction s)
  case Nil
  then show ?case by simp
next
  case (Cons c cs)
  then have IH: "collapse_ws cs = cs" by simp
  show ?case
  proof (cases "isspace c")
    case True
    with Cons.prems have c: "c = 32" and h: "cs = [] \<or> \<not> isspace (hd cs)" by simp_all
    from h have "dropWhile isspace cs = cs" by (simp add: dropWhile_eq_self_iff)
    with True c IH show ?thesis by simp
  next
    case False
    with IH show ?thesis by simp
  qed
qed

lemma ws_normal_append: "ws_normal (xs @ ys) \<Longrightarrow> ws_normal xs \<and> ws_normal ys"
proof (induction xs)
  case Nil
  then show ?case by simp
next
  case (Cons a xs)
  then show ?case by (cases xs) auto
qed

lemma py_strip_infix: "\<exists>pre post. s = pre @ py_strip s @ post"
proof -
  let ?t = "dropWhile isspace s"
  have "?t = rev (dropWhile isspace (rev ?t)) @ rev (takeWhile isspace (rev ?t))"
    by (metis rev_append rev_rev_ident takeWhile_dropWhile_id)
  then have "?t = py_strip s @ rev (takeWhile isspace (rev ?t))"
    by (simp only: py_strip_def)
  moreover have "s = takeWhile isspace s @ ?t" by simp
  ultimately have "s = takeWhile isspace s @ py_strip s @ rev (takeWhile isspace (rev ?t))"
    by simp
  then show ?thesis by blast
qed

lemma ws_normal_strip: "ws_normal s \<Longrightarrow> ws_normal (py_strip s)"
proof -
  assume a: "ws_normal s"
  from py_strip_infix[of s] obtain pre post where "s = pre @ py_strip s @ post" by blast
  with a have "ws_normal (pre @ py_strip s @ post)" by simp
  then have "ws_normal (py_strip s @ post)" using ws_normal_append by blast
  then show ?thesis using ws_normal_append by blast
qed

lemma set_py_strip: "set (py_strip s) \<subseteq> set s"
proof -
  from py_strip_infix[of s] obtain pre post where s: "s = pre @ py_strip s @ post" by blast
  have "set (py_strip s) \<subseteq> set (pre @ py_strip s @ post)" by auto
  with s show ?thesis by simp
qed

lemma py_strip_ends:
  "py_strip s = [] \<or> (\<not> isspace (hd (py_strip s)) \<and> \<not> isspace (last (py_strip s)))"
proof (cases "py_strip s = []")
  case True
  then show ?thesis by simp
next
  case False
  let ?t = "dropWhile isspace s"
  let ?u = "dropWhile isspace (rev ?t)"
  have p: "py_strip s = rev ?u" by (simp add: py_strip_def)
  with False have u: "?u \<noteq> []" by simp
  with dropWhile_hd_not[of isspace "rev ?t"] have hu: "\<not> isspace (hd ?u)" by blast
  from u have l: "last (py_strip s) = hd ?u" unfolding p by (simp add: last_rev)
  from u obtain x where x: "x \<in> set (rev ?t)" "\<not> isspace x" by auto
  then have t: "?t \<noteq> []" by (metis empty_iff list.set(1) set_rev)
  with dropWhile_hd_not[of isspace s] have ht: "\<not> isspace (hd ?t)" by blast
  from dropWhile_last[of x "rev ?t" isspace] x have "last ?u = last (rev ?t)" by blast
  also from t have "\<dots> = hd ?t" by (simp add: last_rev)
  finally have "last ?u = hd ?t" .
  moreover from u have "hd (py_strip s) = last ?u" unfolding p by (simp add: hd_rev)
  ultimately show ?thesis using hu ht l by simp
qed

lemma py_strip_fixed:
  assumes "s = [] \<or> (\<not> isspace (hd s) \<and> \<not> isspace (last s))"
  shows "py_strip s = s"
proof (cases "s = []")
  case True
  then show ?thesis by (simp add: py_strip_def)
next
  case False
  with assms have h: "\<not> isspace (hd s)" and l: "\<not> isspace (last s)" by simp_all
  from h False have "dropWhile isspace s = s" by (simp add: dropWhile_eq_self_iff)
  moreover from l False have "dropWhile isspace (rev s) = rev s"
    by (simp add: dropWhile_eq_self_iff hd_rev)
  ultimately show ?thesis by (simp add: py_strip_def)
qed

lemma py_strip_idem: "py_strip (py_strip s) = py_strip s"
  by (rule py_strip_fixed) (rule py_strip_ends)

lemma set_collapse_ws: "set (collapse_ws s) \<subseteq> insert 32 (set s)"
proof (induction s rule: collapse_ws.induct)
  case 1
  then show ?case by simp
next
  case (2 c cs)
  show ?case
  proof (cases "isspace c")
    case True
    with 2 have "set (collapse_ws (dropWhile isspace cs)) \<subseteq> insert 32 (set (dropWhile isspace cs))"
      by simp
    moreover have "set (dropWhile isspace cs) \<subseteq> set cs" by (auto dest: set_dropWhileD)
    ultimately show ?thesis using True by auto
  next
    case False
    with 2 show ?thesis by auto
  qed
qed

text \<open>The fixed points of the first normalizer.\<close>

lemma normal_form_fixed:
  assumes "ws_normal t" and "t = [] \<or> (\<not> isspace (hd t) \<and> \<not> isspace (last t))"
  shows "py_strip (collapse_ws t) = t"
  using assms by (simp add: collapse_ws_normal py_strip_fixed)

lemma clean_text_idem: "clean_text (clean_text s) = clean_text s"
proof (cases "s = []")
  case True
  then show ?thesis by (simp add: clean_text_def)
next
  case False
  let ?t = "py_strip (collapse_ws s)"
  have "ws_normal ?t" by (intro ws_normal_strip ws_normal_collapse)
  then have "py_strip (collapse_ws ?t) = ?t" using py_strip_ends[of "collapse_ws s"]
    by (intro normal_form_fixed) simp_all
  with False show ?thesis by (simp add: clean_text_def)
qed

lemma fixed_allowed_32: "fixed_allowed u 32"
  by (simp add: fixed_allowed_def isspace_32)

text \<open>
  The sibling that deletes first and collapses afterwards is idempotent on every string.
\<close>

lemma fixed_clean_text_idem:
  "fixed_clean_text u (fixed_clean_text u s) = fixed_clean_text u s"
proof (cases "s = []")
  case True
  then show ?thesis by (simp add: fixed_clean_text_def)
next
  case False
  let ?m = "map (\<lambda>c. if fixed_allowed u c then c else 32)"
  let ?t = "py_strip (collapse_ws (?m (py_strip s)))"
  from False have t: "fixed_clean_text u s = ?t" by (simp add: fixed_clean_text_def)
  have n: "ws_normal ?t" by (intro ws_normal_strip ws_normal_collapse)
  have "\<forall>c \<in> set (?m (py_strip s)). fixed_allowed u c"
    by (auto simp: fixed_allowed_32)
  moreover have "set ?t \<subseteq> insert 32 (set (?m (py_strip s)))"
    using set_py_strip[of "collapse_ws (?m (py_strip s))"] set_collapse_ws[of "?m (py_strip s)"]
    by blast
  ultimately have al: "\<forall>c \<in> set ?t. fixed_allowed u c"
    using fixed_allowed_32 by blast
  then have m: "?m ?t = ?t" by (intro map_idI) simp
  have s1: "py_strip ?t = ?t" by (rule py_strip_idem)
  have "fixed_clean_text u ?t = (if ?t = [] then [] else py_strip (collapse_ws (?m (py_strip ?t))))"
    by (simp only: fixed_clean_text_def)
  also have "\<dots> = (if ?t = [] then [] else py_strip (collapse_ws ?t))"
    by (simp only: s1 m)
  also have "\<dots> = ?t"
    using n by (simp add: collapse_ws_normal py_strip_idem)
  finally show ?thesis unfolding t .
qed

lemma symbol_clean:
  "clean_text (ascii ''a ! b'') = ascii ''a ! b''"
  by (simp add: clean_text_def ascii_def py_strip_def isspace_def)

lemma symbol_fixed_clean:
  "fixed_clean_text ascii_alnum_only (ascii ''a ! b'') = ascii ''a b''"
  by (simp add: fixed_clean_text_def fixed_allowed_def is_word_def ascii_alnum_only_def
      ascii_def py_strip_def isspace_def)

lemma symbol_correct_clean:
  "correct_clean_text ascii_alnum_only (ascii ''a ! b'') = ascii ''a  b''"
  "correct_clean_text ascii_alnum_only (ascii ''a  b'') = ascii ''a b''"
  by (simp_all add: correct_clean_text_def allowed_def is_word_def ascii_alnum_only_def
      ascii_def py_strip_def isspace_def)

text \<open>
  C10 holds for \<open>SentimentAnalyzer.clean_text\<close> (\<open>clean_text_idem\<close>) and fails for
  \<open>CorrectSentimentAnalyzer.clean_text\<close>: line 36 collapses the whitespace and line 37
  deletes the symbols afterwards, so \<open>a ! b\<close> becomes \<open>a\<close>, two spaces, \<open>b\<close>, which
  a second pass turns into \<open>a b\<close>. On the same input the first analyzer returns the
  string unchanged and \<open>FixedSentimentAnalyzer.clean_text\<close>, which deletes first and
  collapses afterwards, returns \<open>a b\<close>; both are idempotent there.
\<close>

theorem correct_clean_text_not_idempotent:
  "correct_clean_text ascii_alnum_only (ascii ''a ! b'') = ascii ''a  b''
   \<and> correct_clean_text ascii_alnum_only (correct_clean_text ascii_alnum_only (ascii ''a ! b''))
        = ascii ''a b''
   \<and> ascii ''a  b'' \<noteq> ascii ''a b''
   \<and> clean_text (clean_text (ascii ''a ! b'')) = clean_text (ascii ''a ! b'')
   \<and> fixed_clean_text ascii_alnum_only (fixed_clean_text ascii_alnum_only (ascii ''a ! b''))
        = fixed_clean_text ascii_alnum_only (ascii ''a ! b'')"
proof -
  have "ascii ''a  b'' \<noteq> ascii ''a b''" by (simp add: ascii_def)
  then show ?thesis
    by (simp only: symbol_correct_clean clean_text_idem fixed_clean_text_idem simp_thms)
qed

end
